theory Spec2Isabelle
  imports Complex_Main
begin

section \<open>The book-update form of \<open>UpdateBookModal.tsx\<close>\<close>

text \<open>
  The component \<open>UpdateBookModal\<close> holds an editable copy of one book, validates it with
  declarative field rules, and on submit passes the record to the remote update operation,
  shows a notification and navigates. The embedding keeps the component's own logic
  (default values, \<open>hasChanged\<close>, the field rules, the \<open>disabled\<close> expression of the submit
  button, \<open>onSubmit\<close>, the error effect) as executable functions, and the component's
  life as a step function over the events it receives.

  What the libraries and the browser do is written out where the component relies on it:
  a disabled submit button delivers no submit event, and neither does a press while a
  control of the form fails the browser's own constraints; the form library's submit
  handler is asynchronous, evaluates the \<open>rules\<close> of each field and calls \<open>onSubmit\<close> only
  when no rule fails; the mutation hook exposes \<open>isLoading\<close>, \<open>isError\<close> and \<open>error\<close>.
\<close>

subsection \<open>Data\<close>

text \<open>
  Modelled from the spec: the declarations \<open>BookFormValues\<close>, \<open>IBookCardProps\<close> and
  \<open>IApiError\<close> of \<open>@/types/types\<close> are not part of the sources. The spec's data model gives
  a book an identifier, title, author, ISBN, genre, description, copies and an availability
  flag; the component reads exactly these fields.

  The text fields are strings. \<open>copies\<close> is a JavaScript number, here a rational, or \<open>None\<close>
  when the value is \<open>undefined\<close> or \<open>null\<close> (the empty value that the \<open>required\<close> rule of a
  numeric field rejects). The availability flag of the form is a boolean; the one of the
  original book may be missing (the component reads it through \<open>book.available ?? true\<close>),
  so the two records share their fields and differ in the type of \<open>available\<close>.
\<close>

record 'av BookFields =
  title :: string
  author :: string
  isbn :: string
  genre :: string
  description :: string
  copies :: "rat option"
  available :: 'av

type_synonym BookFormValues = "bool BookFields"

text \<open>The original book, \<open>book\<close> of \<open>IBookCardProps\<close>; \<open>book_id\<close> is its field \<open>_id\<close>.\<close>

record IBook = "bool option BookFields" +
  book_id :: string

text \<open>The argument of \<open>updateBook\<close>: \<open>{ id: book._id, ...formData }\<close>.\<close>

record UpdateBookArg = "bool BookFields" +
  arg_id :: string

text \<open>
  Modelled from the spec: the response of the update operation is \<open>{message}\<close>, and the error
  payload carries a message field, read by the component as \<open>error.data.message\<close> with
  optional chaining. A missing field is \<open>None\<close>.
\<close>

record MessageBody =
  message :: "string option"

record IApiError =
  data :: "MessageBody option"

text \<open>What the component does to the outside, in the order it does it.\<close>

datatype effect =
    UpdateBook UpdateBookArg
  | ToastSuccess string
  | ToastError string
  | Navigate string

subsection \<open>Default values and the change check\<close>

text \<open>\<open>book.available ?? true\<close>\<close>

fun nullish_true :: "bool option \<Rightarrow> bool" where
  "nullish_true None = True"
| "nullish_true (Some b) = b"

definition defaultValues :: "IBook \<Rightarrow> BookFormValues" where
  "defaultValues book =
     \<lparr> title = title book,
       author = author book,
       isbn = isbn book,
       genre = genre book,
       description = description book,
       copies = copies book,
       available = nullish_true (available book) \<rparr>"

text \<open>
  \<open>hasChanged\<close> walks the keys of the watched values and compares each value with the
  property of the same name of the original book by strict inequality. The values met there
  are of several JavaScript types.
\<close>

datatype jsval = JUndefined | JBoolean bool | JNumber rat | JString string

datatype BookFormKey =
  Title | Author | Isbn | Genre | Description | Copies | Available

definition Object_keys :: "BookFormKey list" where
  "Object_keys = [Title, Author, Isbn, Genre, Description, Copies, Available]"

fun js_number :: "rat option \<Rightarrow> jsval" where
  "js_number None = JUndefined"
| "js_number (Some c) = JNumber c"

fun js_boolean :: "bool option \<Rightarrow> jsval" where
  "js_boolean None = JUndefined"
| "js_boolean (Some b) = JBoolean b"

text \<open>\<open>watchedValues[typedKey]\<close>\<close>

fun watched_at :: "BookFormValues \<Rightarrow> BookFormKey \<Rightarrow> jsval" where
  "watched_at w Title = JString (title w)"
| "watched_at w Author = JString (author w)"
| "watched_at w Isbn = JString (isbn w)"
| "watched_at w Genre = JString (genre w)"
| "watched_at w Description = JString (description w)"
| "watched_at w Copies = js_number (copies w)"
| "watched_at w Available = JBoolean (available w)"

text \<open>\<open>book[typedKey]\<close>\<close>

fun book_at :: "IBook \<Rightarrow> BookFormKey \<Rightarrow> jsval" where
  "book_at b Title = JString (title b)"
| "book_at b Author = JString (author b)"
| "book_at b Isbn = JString (isbn b)"
| "book_at b Genre = JString (genre b)"
| "book_at b Description = JString (description b)"
| "book_at b Copies = js_number (copies b)"
| "book_at b Available = js_boolean (available b)"

definition hasChanged :: "BookFormValues \<Rightarrow> IBook \<Rightarrow> bool" where
  "hasChanged watchedValues book =
     list_ex (\<lambda>key. watched_at watchedValues key \<noteq> book_at book key) Object_keys"

subsection \<open>Field rules\<close>

text \<open>
  The rules of the form fields, in the order of the markup. \<open>required\<close> fails on the empty
  string and on a missing value; \<open>min\<close> is checked on a value that is present and fails below
  its bound. Each failing field reports the message of its first failing rule.
  The description has no rule.
\<close>

definition required_text :: "string \<Rightarrow> string \<Rightarrow> string list" where
  "required_text v msg = (if v = [] then [msg] else [])"

fun copies_rules :: "rat option \<Rightarrow> string list" where
  "copies_rules None = [''Copies is required'']"
| "copies_rules (Some c) = (if c < 0 then [''Copies cannot be negative''] else [])"

definition validate :: "BookFormValues \<Rightarrow> string list" where
  "validate v =
     required_text (title v) ''Title is required'' @
     required_text (author v) ''Author is required'' @
     required_text (isbn v) ''ISBN is required'' @
     required_text (genre v) ''Genre is required'' @
     copies_rules (copies v)"

definition isValid :: "BookFormValues \<Rightarrow> bool" where
  "isValid v = (validate v = [])"

text \<open>The options of the genre select, the \<open>value\<close> of each \<open>SelectItem\<close>.\<close>

definition genre_options :: "string list" where
  "genre_options =
     [''FICTION'', ''NON_FICTION'', ''SCIENCE'', ''HISTORY'', ''BIOGRAPHY'', ''FANTASY'']"

text \<open>
  The number input is \<open><Input type="number" min={0} ...>\<close> with no \<open>step\<close>, in a \<open><form>\<close>
  without \<open>noValidate\<close>. On a press of the submit button the browser checks the control
  before it delivers the submit event: a value below the minimum (range underflow) and a
  value that is not the minimum plus a whole number of steps, the default step being 1
  (step mismatch), hold the event back. The control has no \<open>required\<close> attribute, so an
  empty control passes. No other control of the form carries a constraint.
\<close>

fun number_input_valid :: "rat option \<Rightarrow> bool" where
  "number_input_valid None = True"
| "number_input_valid (Some c) = (0 \<le> c \<and> of_int \<lfloor>c\<rfloor> = c)"

definition checkValidity :: "BookFormValues \<Rightarrow> bool" where
  "checkValidity v = number_input_valid (copies v)"

subsection \<open>The component state\<close>

text \<open>
  The form values, the copies of the form values held by the submit handlers that have
  started and have not yet reached \<open>onSubmit\<close>, the three values read from the mutation hook,
  the current route, the effects so far, and the number of update calls that have come
  back.
\<close>

record State =
  formValues :: BookFormValues
  submitting :: "BookFormValues list"
  isLoading :: bool
  isError :: bool
  error :: "IApiError option"
  route :: string
  effects :: "effect list"
  completed :: nat

definition init :: "IBook \<Rightarrow> string \<Rightarrow> State" where
  "init book r =
     \<lparr> formValues = defaultValues book, submitting = [],
       isLoading = False, isError = False, error = None,
       route = r, effects = [], completed = 0 \<rparr>"

text \<open>\<open>disabled={isLoading || !hasChanged || !isValid}\<close>\<close>

definition submit_disabled :: "IBook \<Rightarrow> State \<Rightarrow> bool" where
  "submit_disabled book s =
     (isLoading s \<or> \<not> hasChanged (formValues s) book \<or> \<not> isValid (formValues s))"

subsection \<open>Submission\<close>

text \<open>\<open>formData.copies > 0\<close>; a missing value compares as false.\<close>

fun gt_zero :: "rat option \<Rightarrow> bool" where
  "gt_zero None = False"
| "gt_zero (Some c) = (0 < c)"

text \<open>
  The first two lines of \<open>onSubmit\<close>: \<open>available\<close> is overwritten, then the argument of
  \<open>updateBook\<close> is the book's \<open>_id\<close> followed by the spread form data.
\<close>

definition onSubmit_arg :: "IBook \<Rightarrow> BookFormValues \<Rightarrow> UpdateBookArg" where
  "onSubmit_arg book formData =
     (let formData' = formData\<lparr> available := gt_zero (copies formData) \<rparr> in
      \<lparr> title = title formData',
        author = author formData',
        isbn = isbn formData',
        genre = genre formData',
        description = description formData',
        copies = copies formData',
        available = available formData',
        arg_id = book_id book \<rparr>)"

text \<open>\<open>x || d\<close> on an optional string: a missing and an empty string are both falsy.\<close>

fun or_default :: "string option \<Rightarrow> string \<Rightarrow> string" where
  "or_default None d = d"
| "or_default (Some m) d = (if m = [] then d else m)"

text \<open>\<open>(error as IApiError)?.data?.message || "Failed to update book"\<close>\<close>

fun errMsg :: "IApiError \<Rightarrow> string" where
  "errMsg e =
     (case data e of
        None \<Rightarrow> ''Failed to update book''
      | Some d \<Rightarrow> or_default (message d) ''Failed to update book'')"

text \<open>The body of the effect on \<open>[isError, error]\<close>.\<close>

fun error_effect :: "bool \<Rightarrow> IApiError option \<Rightarrow> effect list" where
  "error_effect True (Some e) = [ToastError (errMsg e)]"
| "error_effect _ _ = []"

text \<open>
  A press of the submit button. A disabled button does nothing, and the browser holds the
  submit event back while the number input fails its constraints. Otherwise the event
  reaches \<open>handleSubmit(onSubmit)\<close>, which takes its copy of the form values and goes on
  asynchronously: the press itself starts no call and does not set \<open>isLoading\<close>.
\<close>

definition press_submit :: "IBook \<Rightarrow> State \<Rightarrow> State" where
  "press_submit book s =
     (if submit_disabled book s \<or> \<not> checkValidity (formValues s)
      then s
      else s\<lparr> submitting := submitting s @ [formValues s] \<rparr>)"

text \<open>
  The rest of \<open>handleSubmit(onSubmit)\<close> for the handler that holds the copy \<open>formData\<close>:
  the rules are evaluated on the fields of the form, and \<open>onSubmit(formData)\<close> runs only when
  none fails. \<open>onSubmit\<close> then calls \<open>updateBook\<close> and waits; the hook reports the call as
  loading and clears the error of an earlier call. \<open>onSubmit\<close> has no check of its own
  against a call that is already pending.
\<close>

definition handleSubmit :: "IBook \<Rightarrow> BookFormValues \<Rightarrow> State \<Rightarrow> State" where
  "handleSubmit book formData s =
     (if isValid (formValues s)
      then s\<lparr> isLoading := True, isError := False, error := None,
              effects := effects s @ [UpdateBook (onSubmit_arg book formData)] \<rparr>
      else s)"

text \<open>
  The rest of \<open>onSubmit\<close>, run when the awaited call resolves with \<open>res\<close>:
  \<open>toast.success(res.message || "Book updated successfully"); navigate("/books")\<close>.
\<close>

definition onFulfilled :: "MessageBody \<Rightarrow> State \<Rightarrow> State" where
  "onFulfilled res s =
     s\<lparr> isLoading := False,
        completed := Suc (completed s),
        effects := effects s @
          [ToastSuccess (or_default (message res) ''Book updated successfully''),
           Navigate ''/books''],
        route := ''/books'' \<rparr>"

text \<open>
  When the awaited call rejects, \<open>unwrap()\<close> throws and the rest of \<open>onSubmit\<close> is skipped.
  The hook reports the error, and the effect on \<open>[isError, error]\<close> runs.
\<close>

definition onRejected :: "IApiError \<Rightarrow> State \<Rightarrow> State" where
  "onRejected e s =
     (let s' = s\<lparr> isLoading := False, isError := True, error := Some e,
                  completed := Suc (completed s) \<rparr>
      in s'\<lparr> effects := effects s' @ error_effect (isError s') (error s') \<rparr>)"

subsection \<open>Events\<close>

text \<open>
  The user edits a text field, picks one of the offered genres, edits the number field
  (the event carries \<open>Number(e.target.value)\<close>, which is 0 for the cleared input), or
  presses the submit button; the oldest submit handler that has started finishes its
  validation; the update call that the hook reports as loading resolves or rejects.
  The hook follows the call made last: what the completion of an earlier call that a
  later one has overtaken does is not part of the model.
\<close>

datatype event =
    ChangeTitle string
  | ChangeAuthor string
  | ChangeIsbn string
  | SelectGenre string
  | ChangeDescription string
  | ChangeCopies rat
  | Submit
  | Validated
  | Fulfilled MessageBody
  | Rejected IApiError

fun step :: "IBook \<Rightarrow> State \<Rightarrow> event \<Rightarrow> State" where
  "step book s (ChangeTitle v) = s\<lparr> formValues := (formValues s)\<lparr> title := v \<rparr> \<rparr>"
| "step book s (ChangeAuthor v) = s\<lparr> formValues := (formValues s)\<lparr> author := v \<rparr> \<rparr>"
| "step book s (ChangeIsbn v) = s\<lparr> formValues := (formValues s)\<lparr> isbn := v \<rparr> \<rparr>"
| "step book s (SelectGenre v) =
     (if v \<in> set genre_options
      then s\<lparr> formValues := (formValues s)\<lparr> genre := v \<rparr> \<rparr>
      else s)"
| "step book s (ChangeDescription v) =
     s\<lparr> formValues := (formValues s)\<lparr> description := v \<rparr> \<rparr>"
| "step book s (ChangeCopies n) =
     s\<lparr> formValues := (formValues s)\<lparr> copies := Some n \<rparr> \<rparr>"
| "step book s Submit = press_submit book s"
| "step book s Validated =
     (case submitting s of
        [] \<Rightarrow> s
      | formData # rest \<Rightarrow> handleSubmit book formData (s\<lparr> submitting := rest \<rparr>))"
| "step book s (Fulfilled res) = (if isLoading s then onFulfilled res s else s)"
| "step book s (Rejected e) = (if isLoading s then onRejected e s else s)"

definition run :: "IBook \<Rightarrow> string \<Rightarrow> event list \<Rightarrow> State" where
  "run book r es = foldl (step book) (init book r) es"

text \<open>The arguments of the update calls among the effects.\<close>

fun calls :: "effect list \<Rightarrow> UpdateBookArg list" where
  "calls [] = []"
| "calls (UpdateBook a # es) = a # calls es"
| "calls (_ # es) = calls es"

subsection \<open>Sample books\<close>

text \<open>A book as the remote interface returns it, the same book without its flag, and the
  same book with a genre that the select does not offer.\<close>

definition sampleBook :: IBook where
  "sampleBook =
     \<lparr> title = ''Dune'', author = ''Frank Herbert'', isbn = ''9780441013593'',
       genre = ''FICTION'', description = ''A desert planet'', copies = Some 3,
       available = Some True, book_id = ''b1'' \<rparr>"

definition sampleBook_no_flag :: IBook where
  "sampleBook_no_flag = sampleBook\<lparr> available := None \<rparr>"

definition sampleBook_poetry :: IBook where
  "sampleBook_poetry = sampleBook\<lparr> genre := ''POETRY'' \<rparr>"

section \<open>Basic facts\<close>

lemmas model_defs = init_def defaultValues_def submit_disabled_def hasChanged_def Object_keys_def
  isValid_def validate_def required_text_def handleSubmit_def onSubmit_arg_def
  onFulfilled_def onRejected_def genre_options_def run_def sampleBook_def
  press_submit_def checkValidity_def

text \<open>The form is valid exactly when every required text is non-empty and \<open>copies\<close> is a
  number that is not negative.\<close>

lemma isValid_iff:
  "isValid v \<longleftrightarrow>
     title v \<noteq> [] \<and> author v \<noteq> [] \<and> isbn v \<noteq> [] \<and> genre v \<noteq> [] \<and>
     (\<exists>c. copies v = Some c \<and> 0 \<le> c)"
  by (cases "copies v") (auto simp: isValid_def validate_def required_text_def)

lemma calls_append: "calls (xs @ ys) = calls xs @ calls ys"
  by (induction xs rule: calls.induct) simp_all

lemma run_snoc: "run book r (es @ [e]) = step book (run book r es) e"
  by (simp add: run_def)

text \<open>A property of the initial state that every step keeps holds after every run.\<close>

lemma run_invariant:
  assumes "I (init book r)" and "\<And>s e. I s \<Longrightarrow> I (step book s e)"
  shows "I (run book r es)"
proof (induction es rule: rev_induct)
  case Nil
  show ?case using assms(1) by (simp add: run_def)
next
  case (snoc e es)
  then show ?case using assms(2) by (simp add: run_snoc)
qed

text \<open>For a book that has its flag, the untouched form shows no change.\<close>

lemma untouched_form_unchanged:
  "available book \<noteq> None \<Longrightarrow> \<not> hasChanged (defaultValues book) book"
  by (cases "copies book") (auto simp: defaultValues_def hasChanged_def Object_keys_def)

text \<open>
  Every copy of the form values that a submit handler holds was taken at a press that the
  button and the browser let through, and every update call was made from such a copy:
  the copy passes the rules and the constraints of the number input, and its genre is
  the genre of the original book or one of the offered options.
\<close>

lemma step_accepted:
  assumes g: "genre (formValues s) \<in> insert (genre book) (set genre_options)"
    and q: "\<forall>fd \<in> set (submitting s).
              isValid fd \<and> checkValidity fd \<and>
              genre fd \<in> insert (genre book) (set genre_options)"
    and c: "\<forall>arg \<in> set (calls (effects s)).
              \<exists>fd. arg = onSubmit_arg book fd \<and> isValid fd \<and> checkValidity fd \<and>
                   genre fd \<in> insert (genre book) (set genre_options)"
  shows "genre (formValues (step book s e)) \<in> insert (genre book) (set genre_options) \<and>
         (\<forall>fd \<in> set (submitting (step book s e)).
              isValid fd \<and> checkValidity fd \<and>
              genre fd \<in> insert (genre book) (set genre_options)) \<and>
         (\<forall>arg \<in> set (calls (effects (step book s e))).
              \<exists>fd. arg = onSubmit_arg book fd \<and> isValid fd \<and> checkValidity fd \<and>
                   genre fd \<in> insert (genre book) (set genre_options))"
proof (cases e)
  case Submit
  show ?thesis
  proof (cases "submit_disabled book s \<or> \<not> checkValidity (formValues s)")
    case True
    with Submit g q c show ?thesis by (simp add: press_submit_def)
  next
    case False
    then have "isValid (formValues s)" "checkValidity (formValues s)"
      by (simp_all add: submit_disabled_def)
    with Submit False g q c show ?thesis by (simp add: press_submit_def)
  qed
next
  case Validated
  show ?thesis
  proof (cases "submitting s")
    case Nil
    with Validated g q c show ?thesis by simp
  next
    case (Cons fd rest)
    with q have fd: "isValid fd \<and> checkValidity fd \<and>
        genre fd \<in> insert (genre book) (set genre_options)"
      and rest: "\<forall>fd \<in> set rest. isValid fd \<and> checkValidity fd \<and>
        genre fd \<in> insert (genre book) (set genre_options)"
      by simp_all
    show ?thesis
    proof (cases "isValid (formValues s)")
      case True
      with Validated Cons g rest c fd show ?thesis
        by (auto simp: handleSubmit_def calls_append)
    next
      case False
      with Validated Cons g rest c show ?thesis
        by (simp add: handleSubmit_def)
    qed
  qed
next
  case (Fulfilled res)
  with g q c show ?thesis by (auto simp: onFulfilled_def calls_append)
next
  case (Rejected err)
  with g q c show ?thesis
    by (auto simp: onRejected_def calls_append Let_def elim: error_effect.elims)
qed (use g q c in auto)

lemma run_accepted:
  "\<forall>arg \<in> set (calls (effects (run book r es))).
     \<exists>fd. arg = onSubmit_arg book fd \<and> isValid fd \<and> checkValidity fd \<and>
          genre fd \<in> insert (genre book) (set genre_options)"
proof -
  have "genre (formValues (run book r es)) \<in> insert (genre book) (set genre_options) \<and>
         (\<forall>fd \<in> set (submitting (run book r es)).
              isValid fd \<and> checkValidity fd \<and>
              genre fd \<in> insert (genre book) (set genre_options)) \<and>
         (\<forall>arg \<in> set (calls (effects (run book r es))).
              \<exists>fd. arg = onSubmit_arg book fd \<and> isValid fd \<and> checkValidity fd \<and>
                   genre fd \<in> insert (genre book) (set genre_options))"
  proof (rule run_invariant [where I = "\<lambda>s.
         genre (formValues s) \<in> insert (genre book) (set genre_options) \<and>
         (\<forall>fd \<in> set (submitting s).
              isValid fd \<and> checkValidity fd \<and>
              genre fd \<in> insert (genre book) (set genre_options)) \<and>
         (\<forall>arg \<in> set (calls (effects s)).
              \<exists>fd. arg = onSubmit_arg book fd \<and> isValid fd \<and> checkValidity fd \<and>
                   genre fd \<in> insert (genre book) (set genre_options))"], goal_cases)
    case 1
    show ?case by (simp add: init_def defaultValues_def)
  next
    case (2 s e)
    then show ?case using step_accepted [of s book e] by blast
  qed
  then show ?thesis by blast
qed


text \<open>A press that is let through, followed by its handler, makes the call with the form
  values of the press.\<close>

lemma press_then_validated:
  "\<not> submit_disabled book s \<Longrightarrow> checkValidity (formValues s) \<Longrightarrow> submitting s = [] \<Longrightarrow>
     effects (step book (step book s Submit) Validated) =
       effects s @ [UpdateBook (onSubmit_arg book (formValues s))]"
  by (simp add: press_submit_def handleSubmit_def submit_disabled_def)

text \<open>A form held at 1.5 copies passes the rules of the form and fails the constraints of
  the number input, so its press is held back.\<close>

lemma fraction_passes_rules_only:
  "isValid (formValues (run sampleBook ''/books/b1'' [ChangeCopies (3 / 2)])) \<and>
   \<not> checkValidity (formValues (run sampleBook ''/books/b1'' [ChangeCopies (3 / 2)])) \<and>
   effects (run sampleBook ''/books/b1'' [ChangeCopies (3 / 2), Submit, Validated]) = []"
  by code_simp

section \<open>Submission\<close>

text \<open>
  C1. For every form submission the record passed to the update operation carries
  \<open>available\<close> equal to \<open>copies > 0\<close>: whenever the submit handler passes validation, the call
  is made with the argument that \<open>onSubmit\<close> builds from the handler's copy of the form
  values; in that argument \<open>available\<close> is the comparison of the submitted \<open>copies\<close> with 0,
  whatever flag the copy held; and after any sequence of events every record that has
  been passed to the update operation has a \<open>copies\<close> value \<open>c\<close> and \<open>available = (0 < c)\<close>.
\<close>

theorem onSubmit_recomputes_available:
  "(isValid (formValues s) \<longrightarrow>
      effects (handleSubmit book formData s) =
        effects s @ [UpdateBook (onSubmit_arg book formData)]) \<and>
   available (onSubmit_arg book formData) =
     (case copies formData of None \<Rightarrow> False | Some c \<Rightarrow> 0 < c) \<and>
   (\<forall>arg \<in> set (calls (effects (run book r es))).
      \<exists>c. copies arg = Some c \<and> available arg = (0 < c))"
proof (intro conjI)
  show "isValid (formValues s) \<longrightarrow>
      effects (handleSubmit book formData s) =
        effects s @ [UpdateBook (onSubmit_arg book formData)]"
    by (simp add: handleSubmit_def)
  show "available (onSubmit_arg book formData) =
     (case copies formData of None \<Rightarrow> False | Some c \<Rightarrow> 0 < c)"
    by (cases "copies formData") (simp_all add: onSubmit_arg_def)
  show "\<forall>arg \<in> set (calls (effects (run book r es))).
      \<exists>c. copies arg = Some c \<and> available arg = (0 < c)"
  proof
    fix arg
    assume "arg \<in> set (calls (effects (run book r es)))"
    with run_accepted [of book r es]
    obtain fd where "arg = onSubmit_arg book fd" and "isValid fd" by blast
    then show "\<exists>c. copies arg = Some c \<and> available arg = (0 < c)"
      by (auto simp: isValid_iff onSubmit_arg_def)
  qed
qed

text \<open>The form of a book with three copies still holds \<open>available = true\<close> after the copies
  are set to 0; the submitted record says \<open>false\<close>.\<close>

theorem onSubmit_recomputes_available_witness:
  "isValid (formValues (run sampleBook ''/books/b1'' [ChangeCopies 0])) \<and>
   available (formValues (run sampleBook ''/books/b1'' [ChangeCopies 0])) = True \<and>
   map available (calls (effects
     (run sampleBook ''/books/b1'' [ChangeCopies 0, Submit, Validated]))) = [False] \<and>
   map copies (calls (effects
     (run sampleBook ''/books/b1'' [ChangeCopies 0, Submit, Validated]))) = [Some 0]"
  using onSubmit_recomputes_available
    [of "run sampleBook ''/books/b1'' [ChangeCopies 0]" sampleBook
        "formValues (run sampleBook ''/books/b1'' [ChangeCopies 0])"
        "''/books/b1''" "[ChangeCopies 0, Submit, Validated]"]
  by (simp add: model_defs)

text \<open>
  C7. The argument of the update operation is the full record. A press that the button and
  the browser let through hands the form values of that moment to the submit handler; and
  whenever the handler passes validation, the call is made with the \<open>_id\<close> of the original
  book as \<open>id\<close> and every field of the handler's form data, \<open>available\<close> recomputed.
\<close>

theorem payload_is_full_record:
  "(\<not> submit_disabled book s \<longrightarrow> checkValidity (formValues s) \<longrightarrow>
      submitting (step book s Submit) = submitting s @ [formValues s]) \<and>
   (isValid (formValues s) \<longrightarrow>
     (\<exists>arg. effects (handleSubmit book formData s) = effects s @ [UpdateBook arg] \<and>
           arg_id arg = book_id book \<and>
           title arg = title formData \<and>
           author arg = author formData \<and>
           isbn arg = isbn formData \<and>
           genre arg = genre formData \<and>
           description arg = description formData \<and>
           copies arg = copies formData \<and>
           available arg = gt_zero (copies formData)))"
  by (simp add: press_submit_def handleSubmit_def onSubmit_arg_def)

theorem payload_is_full_record_witness:
  "\<not> submit_disabled sampleBook (run sampleBook ''/books/b1'' [ChangeCopies 5]) \<and>
   checkValidity (formValues (run sampleBook ''/books/b1'' [ChangeCopies 5])) \<and>
   effects (run sampleBook ''/books/b1'' [ChangeCopies 5, Submit, Validated]) =
     [UpdateBook \<lparr> title = ''Dune'', author = ''Frank Herbert'', isbn = ''9780441013593'',
        genre = ''FICTION'', description = ''A desert planet'', copies = Some 5,
        available = True, arg_id = ''b1'' \<rparr>]"
  using payload_is_full_record
    [of sampleBook "run sampleBook ''/books/b1'' [ChangeCopies 5]"
        "formValues (run sampleBook ''/books/b1'' [ChangeCopies 5])"]
  by (simp add: model_defs)

section \<open>The submit button\<close>

text \<open>
  C2. If every watched form value equals the field of the same name of the original book,
  the submit button is disabled. (For a book that has its availability flag this is the
  untouched form, by \<open>untouched_form_unchanged\<close>; a book without the flag is the subject of
  C10.)
\<close>

theorem unchanged_disables_submit:
  "\<forall>key \<in> set Object_keys. watched_at (formValues s) key = book_at book key \<Longrightarrow>
     submit_disabled book s"
  by (simp add: submit_disabled_def hasChanged_def list_ex_iff)

theorem unchanged_disables_submit_witness:
  "map (watched_at (formValues (init sampleBook ''/books/b1''))) Object_keys =
     map (book_at sampleBook) Object_keys \<and>
   submit_disabled sampleBook (init sampleBook ''/books/b1'')"
  using unchanged_disables_submit [of "init sampleBook ''/books/b1''" sampleBook]
  by (simp add: model_defs)

text \<open>
  C3. In a form state where the title, author, ISBN or genre is empty, \<open>copies\<close> has no value,
  or \<open>copies\<close> is negative, the form is invalid, the submit button is disabled, a press
  changes nothing, and a submit handler, whatever copy of the form values it holds, does
  not reach the update call: the list of effects stays as it is. (Clearing the number input
  does not empty \<open>copies\<close>: the change handler stores \<open>Number("")\<close>, which is 0.)
\<close>

theorem invalid_form_never_submits:
  assumes "title (formValues s) = [] \<or> author (formValues s) = [] \<or>
           isbn (formValues s) = [] \<or> genre (formValues s) = [] \<or>
           copies (formValues s) = None \<or>
           (\<exists>c. copies (formValues s) = Some c \<and> c < 0)"
  shows "\<not> isValid (formValues s) \<and> submit_disabled book s \<and>
         handleSubmit book formData s = s \<and> step book s Submit = s \<and>
         effects (step book s Validated) = effects s"
proof -
  have "\<not> isValid (formValues s)" using assms by (auto simp: isValid_iff)
  then show ?thesis
    by (simp add: submit_disabled_def handleSubmit_def press_submit_def split: list.split)
qed

theorem invalid_form_never_submits_witness:
  "title (formValues (run sampleBook ''/books/b1'' [ChangeTitle ''''])) = [] \<and>
   \<not> isValid (formValues (run sampleBook ''/books/b1'' [ChangeTitle ''''])) \<and>
   submit_disabled sampleBook (run sampleBook ''/books/b1'' [ChangeTitle '''']) \<and>
   effects (run sampleBook ''/books/b1'' [ChangeTitle '''', Submit, Validated]) = []"
  using invalid_form_never_submits
    [of "run sampleBook ''/books/b1'' [ChangeTitle '''']" sampleBook
        "formValues (run sampleBook ''/books/b1'' [ChangeTitle ''''])"]
  by (simp add: model_defs)

text \<open>
  C6 as stated, that a second submission can never be started before the pending one has
  completed, fails: the loading flag is set when the call starts, not at the press, and
  \<open>onSubmit\<close> has no check of its own. Two presses that both arrive before the first
  handler has started its call are both let through, and each makes a call: after the
  second handler the hook reports loading, two calls have been made and none has come back.
\<close>

theorem second_submission_counterexample:
  "isLoading (run sampleBook ''/books/b1''
     [ChangeTitle ''Dune II'', Submit, Submit, Validated]) \<and>
   length (calls (effects (run sampleBook ''/books/b1''
     [ChangeTitle ''Dune II'', Submit, Submit, Validated]))) = 1 \<and>
   length (calls (effects (run sampleBook ''/books/b1''
     [ChangeTitle ''Dune II'', Submit, Submit, Validated, Validated]))) = 2 \<and>
   completed (run sampleBook ''/books/b1''
     [ChangeTitle ''Dune II'', Submit, Submit, Validated, Validated]) = 0"
  by (simp add: model_defs)

text \<open>
  C6, amended. While the update call is in flight (\<open>isLoading\<close> is true) the submit button is
  disabled, and a press on it starts no submission: the state, with its submit handlers
  and its effects, stays as it is.
\<close>

theorem loading_disables_submit:
  "isLoading s \<Longrightarrow>
     submit_disabled book s \<and> step book s Submit = s \<and>
     submitting (step book s Submit) = submitting s \<and>
     effects (step book s Submit) = effects s"
  by (simp add: submit_disabled_def press_submit_def)

theorem loading_disables_submit_witness:
  "isLoading (run sampleBook ''/books/b1'' [ChangeTitle ''Dune II'', Submit, Validated]) \<and>
   submit_disabled sampleBook
     (run sampleBook ''/books/b1'' [ChangeTitle ''Dune II'', Submit, Validated]) \<and>
   length (calls (effects (run sampleBook ''/books/b1''
      [ChangeTitle ''Dune II'', Submit, Validated, Submit, Validated]))) = 1"
  using loading_disables_submit
    [of "run sampleBook ''/books/b1'' [ChangeTitle ''Dune II'', Submit, Validated]" sampleBook]
  by (simp add: model_defs)

text \<open>
  C10. For a book without an availability flag the form starts with \<open>available = true\<close>, and
  the change check already reports a change on the untouched form, since \<open>true\<close> is not
  strictly equal to the missing value.
\<close>

theorem missing_available_reports_change:
  "available book = None \<Longrightarrow>
     available (defaultValues book) = True \<and>
     hasChanged (defaultValues book) book \<and>
     hasChanged (formValues (init book r)) book"
  by (simp add: defaultValues_def hasChanged_def Object_keys_def init_def)

text \<open>For such a book the button of the untouched, valid form is enabled.\<close>

theorem missing_available_reports_change_witness:
  "available sampleBook_no_flag = None \<and>
   available (defaultValues sampleBook_no_flag) = True \<and>
   hasChanged (defaultValues sampleBook_no_flag) sampleBook_no_flag \<and>
   \<not> submit_disabled sampleBook_no_flag (init sampleBook_no_flag ''/books/b1'')"
  using missing_available_reports_change [of sampleBook_no_flag "''/books/b1''"]
  by (simp add: model_defs sampleBook_no_flag_def)

section \<open>Completion of the update call\<close>





section \<open>What a submitted record can hold\<close>

text \<open>
  C8 as stated, that every record the form can submit has one of the six values as its
  genre, fails: the form starts from \<open>book.genre\<close> unchecked and the only rule on the genre
  is that it is not empty. A book whose genre is not among the options is submitted with
  that genre once another field has been edited.
\<close>

theorem submitted_genre_counterexample:
  "map genre (calls (effects (run sampleBook_poetry ''/books/b1''
      [ChangeTitle ''Dune II'', Submit, Validated]))) = [''POETRY''] \<and>
   ''POETRY'' \<notin> set genre_options"
  by (simp add: model_defs sampleBook_poetry_def)

text \<open>
  C8, amended. The genre select offers exactly the six values FICTION, NON_FICTION, SCIENCE,
  HISTORY, BIOGRAPHY and FANTASY, an empty genre makes the form invalid, and after any
  sequence of events the genre of every record the form has submitted is not empty and is
  either the genre of the original book or one of the six values.
\<close>

theorem submitted_genre_original_or_option:
  "set genre_options =
     {''FICTION'', ''NON_FICTION'', ''SCIENCE'', ''HISTORY'', ''BIOGRAPHY'', ''FANTASY''} \<and>
   length genre_options = 6 \<and>
   (\<forall>v. genre v = [] \<longrightarrow> \<not> isValid v) \<and>
   (\<forall>arg \<in> set (calls (effects (run book r es))).
      genre arg \<noteq> [] \<and> (genre arg = genre book \<or> genre arg \<in> set genre_options))"
proof -
  have "\<forall>arg \<in> set (calls (effects (run book r es))).
      genre arg \<noteq> [] \<and> (genre arg = genre book \<or> genre arg \<in> set genre_options)"
  proof
    fix arg
    assume "arg \<in> set (calls (effects (run book r es)))"
    with run_accepted [of book r es]
    obtain fd where "arg = onSubmit_arg book fd" and "isValid fd"
      and "genre fd \<in> insert (genre book) (set genre_options)" by blast
    then show "genre arg \<noteq> [] \<and> (genre arg = genre book \<or> genre arg \<in> set genre_options)"
      by (auto simp: isValid_iff onSubmit_arg_def)
  qed
  then show ?thesis by (simp add: genre_options_def isValid_iff)
qed

text \<open>A value that the select does not offer cannot be picked.\<close>

theorem submitted_genre_original_or_option_witness:
  "map genre (calls (effects (run sampleBook_poetry ''/books/b1''
      [SelectGenre ''HISTORY'', SelectGenre ''DRAMA'', Submit, Validated]))) = [''HISTORY''] \<and>
   ''HISTORY'' \<in> set genre_options \<and>
   \<not> isValid ((defaultValues sampleBook) \<lparr> genre := [] \<rparr>)"
  using submitted_genre_original_or_option
    [of sampleBook_poetry "''/books/b1''"
        "[SelectGenre ''HISTORY'', SelectGenre ''DRAMA'', Submit, Validated]"]
  by (simp add: model_defs sampleBook_poetry_def)



end
